theory Spec2Isabelle
  imports Complex_Main "HOL-Library.Multiset" "HOL-Library.Log_Nat"
begin

section \<open>Data model (lib/types)\<close>

text \<open>
  Timestamps are ISO strings in the source; every use parses them with \<open>new Date(s)\<close>
  and reads the instant. An ISO string is modelled by the instant it denotes: an integer
  number of milliseconds, counted on the viewer's local wall clock (the absolute epoch
  milliseconds shifted by the viewer's zone offset, taken as constant: no daylight-saving
  change). Strings that do not parse to a date are outside the model.
\<close>

type_synonym instant = int

datatype Subject = physics | chemistry | mathematics | botany | zoology | classes

datatype ExamType = JEE | NEET

datatype js_error = Error string

record ExamConfig =
  config_type :: ExamType
  config_totalMarks :: int
  subjectMarks :: "(Subject \<times> int) list"

definition DEFAULT_EXAM_CONFIGS :: "ExamType \<Rightarrow> ExamConfig" where
  "DEFAULT_EXAM_CONFIGS t =
     (case t of
        JEE \<Rightarrow> \<lparr>config_type = JEE, config_totalMarks = 300,
                 subjectMarks = [(physics, 100), (chemistry, 100), (mathematics, 100)]\<rparr>
      | NEET \<Rightarrow> \<lparr>config_type = NEET, config_totalMarks = 720,
                 subjectMarks = [(physics, 180), (chemistry, 180), (botany, 180), (zoology, 180)]\<rparr>)"

text \<open>\<open>Object.keys(DEFAULT_EXAM_CONFIGS[examType].subjectMarks)\<close>, in insertion order.\<close>

definition subjectKeys :: "ExamType \<Rightarrow> Subject list" where
  "subjectKeys t = map fst (subjectMarks (DEFAULT_EXAM_CONFIGS t))"

record Task =
  task_id :: string
  title :: string
  task_subject :: Subject
  completed :: bool
  createdAt :: instant

record TimeLog =
  log_id :: string
  subject :: Subject
  duration :: int
  timestamp :: instant
  startTime :: instant
  endTime :: instant
  questionCount :: int
  goalId :: "string option"
  goalTitle :: "string option"
  "notes" :: "string option"

record SubjectTestData =
  score :: int
  questionsAttempted :: int
  correctAnswers :: int
  incorrectAnswers :: int
  topicsTested :: "string list option"

record TestRecord =
  test_id :: string
  test_date :: instant
  totalScore :: int
  totalMarks :: int
  timeSpent :: int
  test_notes :: "string option"
  subjectData :: "(string \<times> SubjectTestData) list"

record HistoryEntry =
  date :: instant
  maintained :: bool

record StreakData =
  currentStreak :: int
  longestStreak :: int
  lastStreakDate :: instant
  streakHistory :: "HistoryEntry list"

record StreakConfig =
  minStudyHours :: rat
  minQuestions :: rat

record UserSettings =
  examType :: ExamType
  customSubjectNames :: "(string \<times> string) list"
  streakConfig :: StreakConfig

definition DEFAULT_STREAK_CONFIG :: StreakConfig where
  "DEFAULT_STREAK_CONFIG = \<lparr>minStudyHours = 10, minQuestions = 60\<rparr>"

section \<open>JavaScript numbers and dates\<close>

text \<open>
  A JavaScript number is an IEEE 754 double. A finite double is modelled by the rational it
  denotes, and every arithmetic operation of the source that can be inexact is followed by
  \<open>fl\<close>, the rounding to the nearest double (53 significant bits, ties to the even
  significand). The exponent range is not bounded: overflow, subnormal numbers, NaN and the
  infinities are outside the model. A number field that holds an integer (a duration from
  \<open>Math.floor\<close>, a question count from \<open>parseInt\<close>, a streak counter) is typed
  \<open>int\<close>; its value is a double, and an integer that is not a double does not occur in
  it. The difference of the two instants of a session (less than 285 000 years apart) and
  a streak counter plus one (a count of days) are below \<open>2^53\<close> and exact, and are
  written on \<open>int\<close>; every sum over the session collection is rounded with \<open>fl\<close>
  at each addition, as the code's \<open>+=\<close> and \<open>reduce\<close> do.
\<close>

definition pow2 :: "int \<Rightarrow> rat" where
  "pow2 e = (if 0 \<le> e then 2 ^ nat e else 1 / 2 ^ nat (- e))"

definition round_half_even :: "rat \<Rightarrow> int" where
  "round_half_even x =
     (let f = \<lfloor>x\<rfloor>; d = x - of_int f
      in if d < 1 / 2 then f else if 1 / 2 < d then f + 1 else if even f then f else f + 1)"

text \<open>The exponent \<open>e\<close> with \<open>2^e \<le> |x| < 2^(e+1)\<close>, for \<open>x \<noteq> 0\<close>.\<close>

definition binade :: "rat \<Rightarrow> int" where
  "binade x =
     (let (p, q) = quotient_of \<bar>x\<bar>; e0 = bitlen p - bitlen q
      in if pow2 e0 \<le> \<bar>x\<bar> then e0 else e0 - 1)"

definition fl :: "rat \<Rightarrow> rat" where
  "fl x =
     (if x = 0 then 0
      else (let u = pow2 (binade x - 52)
            in sgn x * of_int (round_half_even (\<bar>x\<bar> / u)) * u))"

text \<open>\<open>Math.round\<close>: the nearest integer, a tie going towards plus infinity.\<close>

definition Math_round :: "rat \<Rightarrow> rat" where
  "Math_round x = of_int \<lfloor>x + 1 / 2\<rfloor>"

text \<open>
  \<open>Date\<close> methods, on local wall-clock milliseconds. \<open>toDateString\<close> prints the local
  calendar date; two instants print the same string exactly when they fall on the same
  local calendar day, so the day number stands for the string. \<open>addDays d n\<close> is
  \<open>d.setDate(d.getDate() + n)\<close>. \<open>getDate\<close> is the day of the month of the
  proleptic Gregorian calendar.
\<close>

definition msPerDay :: int where
  "msPerDay = 86400000"

definition localDay :: "instant \<Rightarrow> int" where
  "localDay t = t div msPerDay"

definition toDateString :: "instant \<Rightarrow> int" where
  "toDateString t = localDay t"



definition setHours :: "instant \<Rightarrow> int \<Rightarrow> int \<Rightarrow> int \<Rightarrow> int \<Rightarrow> instant" where
  "setHours t h m s ms = localDay t * msPerDay + h * 3600000 + m * 60000 + s * 1000 + ms"

definition addDays :: "instant \<Rightarrow> int \<Rightarrow> instant" where
  "addDays t n = t + n * msPerDay"



section \<open>Dashboard: state and session record store\<close>

text \<open>
  The React state of the Dashboard component that the modelled handlers read and write.
  A handler reads the current state and passes new values to the setters; the model
  returns the state after the handler. A handler that throws before it reaches the setter
  returns \<open>Inl\<close> the error, and the component keeps the state it had
  (\<open>state_after\<close>). Writes to \<open>localStorage\<close> are not modelled.
\<close>

record DashboardState =
  settings :: UserSettings
  activeSubject :: Subject
  timeLogs :: "TimeLog list"
  tasks :: "Task list"
  tests :: "TestRecord list"
  streakData :: StreakData

definition state_after :: "DashboardState \<Rightarrow> js_error + DashboardState \<Rightarrow> DashboardState" where
  "state_after st r = (case r of Inl e \<Rightarrow> st | Inr st' \<Rightarrow> st')"

text \<open>
  \<open>newId\<close> is the string \<open>Date.now().toString()\<close> read from the clock.
  \<open>Math.floor(x / 1000)\<close> of a difference of two instants is the integer quotient
  rounded down.
\<close>

definition addManualStudyLog ::
  "DashboardState \<Rightarrow> string \<Rightarrow> Subject \<Rightarrow> instant \<Rightarrow> instant \<Rightarrow> int \<Rightarrow>
   string option \<Rightarrow> string option \<Rightarrow> string option \<Rightarrow> js_error + DashboardState" where
  "addManualStudyLog st newId subj startT endT qCount gId gTitle nts =
     (let dur = (endT - startT) div 1000 in
      if dur \<le> 0 then Inl (Error ''End time must be after start time'')
      else Inr (st\<lparr>timeLogs := timeLogs st @
        [\<lparr>log_id = newId, subject = subj, duration = dur, timestamp = endT,
          startTime = startT, endTime = endT, questionCount = qCount,
          goalId = gId, goalTitle = gTitle, notes = nts\<rparr>]\<rparr>))"

definition deleteStudyLog :: "DashboardState \<Rightarrow> string \<Rightarrow> DashboardState" where
  "deleteStudyLog st logId = st\<lparr>timeLogs := filter (\<lambda>tlog. log_id tlog \<noteq> logId) (timeLogs st)\<rparr>"

text \<open>
  \<open>timeLogs.map\<close> with a callback that may throw: the first matching record whose new
  duration is not positive aborts the whole map.
\<close>

fun mapEndTime :: "string \<Rightarrow> instant \<Rightarrow> TimeLog list \<Rightarrow> js_error + TimeLog list" where
  "mapEndTime logId newEndTime [] = Inr []"
| "mapEndTime logId newEndTime (tlog # rest) =
     (if log_id tlog = logId then
        (let dur = (newEndTime - startTime tlog) div 1000 in
         if dur \<le> 0 then Inl (Error ''End time must be after start time'')
         else (case mapEndTime logId newEndTime rest of
                 Inl e \<Rightarrow> Inl e
               | Inr rest' \<Rightarrow>
                   Inr (tlog\<lparr>endTime := newEndTime, duration := dur, timestamp := newEndTime\<rparr> # rest')))
      else (case mapEndTime logId newEndTime rest of
              Inl e \<Rightarrow> Inl e
            | Inr rest' \<Rightarrow> Inr (tlog # rest')))"

definition editStudyLogEndTime :: "DashboardState \<Rightarrow> string \<Rightarrow> instant \<Rightarrow> js_error + DashboardState" where
  "editStudyLogEndTime st logId newEndTime =
     (case mapEndTime logId newEndTime (timeLogs st) of
        Inl e \<Rightarrow> Inl e
      | Inr logs' \<Rightarrow> Inr (st\<lparr>timeLogs := logs'\<rparr>))"

definition editStudyLogQuestionCount :: "DashboardState \<Rightarrow> string \<Rightarrow> int \<Rightarrow> DashboardState" where
  "editStudyLogQuestionCount st logId newCount =
     st\<lparr>timeLogs :=
        map (\<lambda>tlog. if log_id tlog = logId then tlog\<lparr>questionCount := newCount\<rparr> else tlog)
          (timeLogs st)\<rparr>"

definition editStudyLogNotes :: "DashboardState \<Rightarrow> string \<Rightarrow> string \<Rightarrow> DashboardState" where
  "editStudyLogNotes st logId newNotes =
     st\<lparr>timeLogs :=
        map (\<lambda>tlog. if log_id tlog = logId then tlog\<lparr>notes := Some newNotes\<rparr> else tlog)
          (timeLogs st)\<rparr>"

section \<open>Dashboard: switching the exam type\<close>

text \<open>
  \<open>validSubjects[0]\<close> reads the first key of a constant table; both tables are non-empty.
\<close>

definition handleUpdateSettings :: "DashboardState \<Rightarrow> UserSettings \<Rightarrow> DashboardState" where
  "handleUpdateSettings st newSettings =
     (let st1 = st\<lparr>settings := newSettings\<rparr> in
      if examType newSettings \<noteq> examType (settings st) then
        (let validSubjects = subjectKeys (examType newSettings) in
         st1\<lparr>activeSubject := hd validSubjects,
             timeLogs := filter (\<lambda>tlog. subject tlog = classes
                                   \<or> subject tlog \<in> set (subjectKeys (examType newSettings)))
                          (timeLogs st),
             tasks := filter (\<lambda>task. task_subject task = classes
                                \<or> task_subject task \<in> set (subjectKeys (examType newSettings)))
                       (tasks st),
             tests := []\<rparr>)
      else st1)"

section \<open>Dashboard: streak engine\<close>

text \<open>The records of the day window that \<open>checkStreakRequirements\<close> filters.\<close>

definition dayLogs :: "TimeLog list \<Rightarrow> instant \<Rightarrow> TimeLog list" where
  "dayLogs logs d =
     (let startOfDay = setHours d 4 30 0 0;
          endOfDay = setHours (addDays d 1) 4 29 59 999
      in filter (\<lambda>tlog. startOfDay \<le> startTime tlog \<and> startTime tlog \<le> endOfDay) logs)"

definition checkStreakRequirements :: "DashboardState \<Rightarrow> instant \<Rightarrow> bool" where
  "checkStreakRequirements st d =
     (let totalHours = foldl (\<lambda>total tlog. fl (total + fl (of_int (duration tlog) / 3600))) 0
                         (dayLogs (timeLogs st) d);
          totalQuestions = foldl (\<lambda>total tlog. fl (total + of_int (questionCount tlog))) 0
                             (dayLogs (timeLogs st) d)
      in minStudyHours (streakConfig (settings st)) \<le> totalHours
         \<and> minQuestions (streakConfig (settings st)) \<le> totalQuestions)"

text \<open>\<open>Array.prototype.findIndex\<close>: the first index whose element satisfies \<open>P\<close>, or \<open>-1\<close>.\<close>

fun findIndexFrom :: "('a \<Rightarrow> bool) \<Rightarrow> 'a list \<Rightarrow> int \<Rightarrow> int" where
  "findIndexFrom P [] i = - 1"
| "findIndexFrom P (x # xs) i = (if P x then i else findIndexFrom P xs (i + 1))"

definition findIndex :: "('a \<Rightarrow> bool) \<Rightarrow> 'a list \<Rightarrow> int" where
  "findIndex P xs = findIndexFrom P xs 0"

text \<open>
  \<open>now\<close> is the instant that \<open>new Date()\<close> reads. The source copies the history
  array and then writes \<open>maintained\<close> into the entry object it shares with the previous
  state; the previous state is not read again, and the model returns the new history.
\<close>

definition updateStreak :: "instant \<Rightarrow> DashboardState \<Rightarrow> DashboardState" where
  "updateStreak now st =
     (let today = now;
          yesterday = addDays today (- 1);
          lastStreak = lastStreakDate (streakData st);
          todayMet = checkStreakRequirements st today;
          yesterdayMet = checkStreakRequirements st yesterday;
          history = streakHistory (streakData st);
          existingTodayIndex = findIndex (\<lambda>h. toDateString (date h) = toDateString today) history;
          newHistory =
            (if 0 \<le> existingTodayIndex
             then history[nat existingTodayIndex :=
                    (history ! nat existingTodayIndex)\<lparr>maintained := todayMet\<rparr>]
             else history @ [\<lparr>date = today, maintained = todayMet\<rparr>]);
          isStreakBroken = (\<not> yesterdayMet \<and> toDateString lastStreak = toDateString yesterday);
          streak0 = (if isStreakBroken then 0 else currentStreak (streakData st));
          newStreak =
            (if todayMet then
               (if toDateString lastStreak = toDateString yesterday \<and> yesterdayMet then streak0 + 1
                else if toDateString lastStreak \<noteq> toDateString today then 1
                else streak0)
             else streak0)
      in st\<lparr>streakData :=
            \<lparr>currentStreak = newStreak,
             longestStreak = max newStreak (longestStreak (streakData st)),
             lastStreakDate = today,
             streakHistory = newHistory\<rparr>\<rparr>)"

text \<open>
  A sequence of evaluations: each one runs on the instant and on the session collection of
  its moment; the result lists the state after each evaluation.
\<close>

fun runStreak :: "(instant \<times> TimeLog list) list \<Rightarrow> DashboardState \<Rightarrow> DashboardState list" where
  "runStreak [] st = []"
| "runStreak ((now, logs) # evs) st =
     (let st' = updateStreak now (st\<lparr>timeLogs := logs\<rparr>) in st' # runStreak evs st')"

section \<open>StudyLogs: the edit form\<close>

record StudyLogsState =
  editingLog :: "TimeLog option"
  newQuestionCount :: int
  error :: string

text \<open>
  \<open>handleEditQuestionCount\<close> of the StudyLogs component; \<open>onEditLogQuestionCount\<close> is
  the Dashboard's \<open>editStudyLogQuestionCount\<close>, which does not throw.
\<close>

definition handleEditQuestionCount ::
  "DashboardState \<Rightarrow> StudyLogsState \<Rightarrow> DashboardState \<times> StudyLogsState" where
  "handleEditQuestionCount st ui =
     (case editingLog ui of
        None \<Rightarrow> (st, ui)
      | Some el \<Rightarrow>
          if newQuestionCount ui < 0
          then (st, ui\<lparr>error := ''Question count cannot be negative''\<rparr>)
          else (editStudyLogQuestionCount st (log_id el) (newQuestionCount ui),
                ui\<lparr>editingLog := None, newQuestionCount := 0, error := ''''\<rparr>))"

section \<open>InsightsView: aggregation\<close>



text \<open>
  The totals object: its keys in insertion order, \<open>classes\<close> first, then the subjects
  of the exam configuration. \<open>addTotal\<close> is the guarded update of the \<open>forEach\<close> body:
  a subject that is not a key leaves the object as it is, and \<open>+=\<close> on a key adds in
  double precision.
\<close>

definition initTotals :: "UserSettings \<Rightarrow> (Subject \<times> rat) list" where
  "initTotals stg = (classes, 0) # map (\<lambda>s. (s, 0)) (subjectKeys (examType stg))"

fun addTotal :: "Subject \<Rightarrow> rat \<Rightarrow> (Subject \<times> rat) list \<Rightarrow> (Subject \<times> rat) list" where
  "addTotal s n [] = []"
| "addTotal s n ((k, v) # totals) =
     (if k = s then (k, fl (v + n)) # totals else (k, v) # addTotal s n totals)"

definition getTotalTimeBySubject :: "UserSettings \<Rightarrow> TimeLog list \<Rightarrow> (Subject \<times> rat) list" where
  "getTotalTimeBySubject stg filteredLogs =
     foldl (\<lambda>totals tlog. addTotal (subject tlog) (of_int (duration tlog)) totals)
       (initTotals stg) filteredLogs"

text \<open>\<open>log.questionCount || 0\<close> is the count itself on an integer.\<close>

definition getTotalQuestionsBySubject :: "UserSettings \<Rightarrow> TimeLog list \<Rightarrow> (Subject \<times> rat) list" where
  "getTotalQuestionsBySubject stg filteredLogs =
     foldl (\<lambda>totals tlog. addTotal (subject tlog) (of_int (questionCount tlog)) totals)
       (initTotals stg) filteredLogs"

section \<open>WeeklyReport: week-over-week change\<close>

definition calculateChange :: "rat \<Rightarrow> rat \<Rightarrow> rat" where
  "calculateChange current previous =
     (if previous = 0 then (if 0 < current then 100 else 0)
      else Math_round (fl (fl (fl (current - previous) / previous) * 100)))"

section \<open>The logical day of the specification\<close>

text \<open>
  The specification's day-boundary rule (its section 4.1), in its own words and not taken
  from the code: with the cutover at 4 hours 30 minutes, an instant before 04:30 local time
  belongs to the previous calendar date, an instant at or after 04:30 to the current one.
  The code has no such function; the theorems compare its day windows with this one.
\<close>

definition spec_cutover :: int where
  "spec_cutover = 4 * 3600000 + 30 * 60000"

definition spec_logicalDay :: "instant \<Rightarrow> int" where
  "spec_logicalDay t = (if t mod msPerDay < spec_cutover then localDay t - 1 else localDay t)"

section \<open>Example data\<close>

text \<open>\<open>atTime d h m\<close>: the instant at \<open>h:m\<close> on local day number \<open>d\<close>.\<close>

definition atTime :: "int \<Rightarrow> int \<Rightarrow> int \<Rightarrow> instant" where
  "atTime d h m = d * msPerDay + h * 3600000 + m * 60000"

definition example_log :: TimeLog where
  "example_log = \<lparr>log_id = ''1700000000000'', subject = physics, duration = 3600,
     timestamp = 7200000, startTime = 3600000, endTime = 7200000, questionCount = 12,
     goalId = None, goalTitle = None, notes = None\<rparr>"

definition example_settings :: UserSettings where
  "example_settings = \<lparr>examType = JEE, customSubjectNames = [], streakConfig = DEFAULT_STREAK_CONFIG\<rparr>"

definition example_streak :: StreakData where
  "example_streak = \<lparr>currentStreak = 0, longestStreak = 0, lastStreakDate = 0, streakHistory = []\<rparr>"

definition example_state :: DashboardState where
  "example_state = \<lparr>settings = example_settings, activeSubject = physics,
     timeLogs = [example_log], tasks = [], tests = [], streakData = example_streak\<rparr>"

definition added_log :: TimeLog where
  "added_log = \<lparr>log_id = ''1700000009999'', subject = chemistry, duration = 5,
     timestamp = 9005999, startTime = 9000000, endTime = 9005999, questionCount = 3,
     goalId = None, goalTitle = None, notes = None\<rparr>"

definition example_ui :: StudyLogsState where
  "example_ui = \<lparr>editingLog = Some example_log, newQuestionCount = - 5, error = ''''\<rparr>"

definition maths_log :: TimeLog where
  "maths_log = \<lparr>log_id = ''1700000020000'', subject = mathematics, duration = 1800,
     timestamp = 12600000, startTime = 10800000, endTime = 12600000, questionCount = 7,
     goalId = None, goalTitle = None, notes = None\<rparr>"

definition classes_log :: TimeLog where
  "classes_log = \<lparr>log_id = ''1700000030000'', subject = classes, duration = 5400,
     timestamp = 19800000, startTime = 14400000, endTime = 19800000, questionCount = 0,
     goalId = None, goalTitle = None, notes = None\<rparr>"

definition maths_task :: Task where
  "maths_task = \<lparr>task_id = ''1700000040000'', title = ''Integration'', task_subject = mathematics,
     completed = False, createdAt = 3600000\<rparr>"

definition physics_task :: Task where
  "physics_task = \<lparr>task_id = ''1700000050000'', title = ''Optics'', task_subject = physics,
     completed = True, createdAt = 3600000\<rparr>"

definition example_test :: TestRecord where
  "example_test = \<lparr>test_id = ''1700000060000'', test_date = 3600000, totalScore = 180,
     totalMarks = 300, timeSpent = 180, test_notes = None, subjectData = []\<rparr>"

definition jee_state :: DashboardState where
  "jee_state = \<lparr>settings = example_settings, activeSubject = mathematics,
     timeLogs = [example_log, maths_log, classes_log], tasks = [maths_task, physics_task],
     tests = [example_test], streakData = example_streak\<rparr>"

definition neet_settings :: UserSettings where
  "neet_settings = \<lparr>examType = NEET, customSubjectNames = [], streakConfig = DEFAULT_STREAK_CONFIG\<rparr>"

text \<open>A ten-hour session with sixty questions, from 08:00 to 18:00 of day \<open>d\<close>.\<close>

definition day_session :: "int \<Rightarrow> TimeLog" where
  "day_session d = \<lparr>log_id = ''session-'' @ replicate (nat d) CHR ''i'', subject = physics, duration = 36000,
     timestamp = atTime d 18 0, startTime = atTime d 8 0, endTime = atTime d 18 0,
     questionCount = 60, goalId = None, goalTitle = None, notes = None\<rparr>"

definition scenario_state :: DashboardState where
  "scenario_state = \<lparr>settings = example_settings, activeSubject = physics, timeLogs = [],
     tasks = [], tests = [],
     streakData = \<lparr>currentStreak = 0, longestStreak = 0, lastStreakDate = atTime 10 22 0,
                   streakHistory = []\<rparr>\<rparr>"

definition scenario_evals :: "(instant \<times> TimeLog list) list" where
  "scenario_evals =
     [(atTime 11 22 0, [day_session 11]),
      (atTime 12 22 0, [day_session 11, day_session 12]),
      (atTime 13 22 0, [day_session 11, day_session 12]),
      (atTime 14 22 0, [day_session 11, day_session 12, day_session 14]),
      (atTime 15 22 0, [day_session 11, day_session 12, day_session 14, day_session 15])]"

text \<open>The first three evaluations of the scenario, and a fourth day without a session.\<close>

definition scenario_failed_day4 :: "(instant \<times> TimeLog list) list" where
  "scenario_failed_day4 =
     [(atTime 11 22 0, [day_session 11]),
      (atTime 12 22 0, [day_session 11, day_session 12]),
      (atTime 13 22 0, [day_session 11, day_session 12]),
      (atTime 14 22 0, [day_session 11, day_session 12])]"

text \<open>A physics session with a given id and question count.\<close>

definition count_log :: "string \<Rightarrow> int \<Rightarrow> TimeLog" where
  "count_log i n = \<lparr>log_id = i, subject = physics, duration = 3600,
     timestamp = 7200000, startTime = 3600000, endTime = 7200000, questionCount = n,
     goalId = None, goalTitle = None, notes = None\<rparr>"

section \<open>Unknown ids\<close>

lemma mapEndTime_unknown:
  "logId \<notin> log_id ` set logs \<Longrightarrow> mapEndTime logId newEndTime logs = Inr logs"
  by (induction logs) auto

lemma filter_unknown:
  "logId \<notin> log_id ` set logs \<Longrightarrow> filter (\<lambda>tlog. log_id tlog \<noteq> logId) logs = logs"
  by (induction logs) auto

lemma map_unknown:
  "logId \<notin> log_id ` set logs \<Longrightarrow>
   map (\<lambda>tlog. if log_id tlog = logId then f tlog else tlog) logs = logs"
  by (induction logs) auto

text \<open>
  C10. For an id that matches no record of the collection, deleting the session, editing
  its end time, editing its question count and editing its notes all raise no error and
  return the state, and with it the collection, unchanged, element for element.
\<close>

theorem unknown_id_noop:
  assumes "logId \<notin> log_id ` set (timeLogs st)"
  shows "deleteStudyLog st logId = st
       \<and> editStudyLogEndTime st logId newEndTime = Inr st
       \<and> editStudyLogQuestionCount st logId newCount = st
       \<and> editStudyLogNotes st logId newNotes = st"
  using assms
  by (simp add: deleteStudyLog_def editStudyLogQuestionCount_def editStudyLogNotes_def
      editStudyLogEndTime_def mapEndTime_unknown filter_unknown map_unknown)

theorem unknown_id_noop_witness:
  "''42'' \<notin> log_id ` set (timeLogs example_state)
   \<and> deleteStudyLog example_state ''42'' = example_state
   \<and> editStudyLogEndTime example_state ''42'' 0 = Inr example_state
   \<and> editStudyLogQuestionCount example_state ''42'' (- 3) = example_state
   \<and> editStudyLogNotes example_state ''42'' ''x'' = example_state"
proof -
  have h: "''42'' \<notin> log_id ` set (timeLogs example_state)"
    by (simp add: example_state_def example_log_def)
  show ?thesis using h unknown_id_noop [OF h, of 0 "- 3" "''x''"] by simp
qed

section \<open>Duration of manual entries and of edited end times\<close>

lemma mapEndTime_Inr:
  "mapEndTime logId e logs = Inr logs' \<Longrightarrow>
   logs' = map (\<lambda>tlog. if log_id tlog = logId
                      then tlog\<lparr>endTime := e, duration := (e - startTime tlog) div 1000, timestamp := e\<rparr>
                      else tlog) logs
   \<and> (\<forall>tlog\<in>set logs. log_id tlog = logId \<longrightarrow> 0 < (e - startTime tlog) div 1000)"
  by (induction logs arbitrary: logs') (auto simp: Let_def split: if_splits sum.splits)

lemma mapEndTime_Inl:
  "tlog \<in> set logs \<Longrightarrow> log_id tlog = logId \<Longrightarrow> (e - startTime tlog) div 1000 \<le> 0 \<Longrightarrow>
   mapEndTime logId e logs = Inl (Error ''End time must be after start time'')"
  by (induction logs) (auto simp: Let_def split: sum.splits)

lemma div_1000_nonpos: "(a::int) \<le> b \<Longrightarrow> (a - b) div 1000 \<le> 0"
  by (rule div_nonpos_pos_le0) simp_all


lemma mapEndTime_durations:
  "mapEndTime logId e logs = Inr logs' \<Longrightarrow> tlog \<in> set logs' \<Longrightarrow> log_id tlog = logId \<Longrightarrow>
   duration tlog = (endTime tlog - startTime tlog) div 1000 \<and> 0 < duration tlog"
proof (induction logs arbitrary: logs')
  case Nil
  then show ?case by simp
next
  case (Cons a logs)
  show ?case
  proof (cases "log_id a = logId")
    case True
    with Cons.prems(1) obtain rest' where
      r: "mapEndTime logId e logs = Inr rest'" and
      d: "0 < (e - startTime a) div 1000" and
      l: "logs' = a\<lparr>endTime := e, duration := (e - startTime a) div 1000, timestamp := e\<rparr> # rest'"
      by (auto simp: Let_def split: if_splits sum.splits)
    from Cons.prems(2) l
    consider "tlog = a\<lparr>endTime := e, duration := (e - startTime a) div 1000, timestamp := e\<rparr>"
      | "tlog \<in> set rest'" by auto
    then show ?thesis
    proof cases
      case 1
      with d show ?thesis by simp
    next
      case 2
      with Cons.IH [OF r] Cons.prems(3) show ?thesis by simp
    qed
  next
    case False
    with Cons.prems(1) obtain rest' where
      r: "mapEndTime logId e logs = Inr rest'" and l: "logs' = a # rest'"
      by (auto split: sum.splits)
    from Cons.prems(2,3) l False have "tlog \<in> set rest'" by auto
    with Cons.IH [OF r] Cons.prems(3) show ?thesis by simp
  qed
qed


text \<open>
  C3. A session record created by manual entry, or changed by editing its end time, has
  \<open>duration = floor((end - start) / 1000)\<close> whole seconds, and that is strictly positive.
  A manual entry with \<open>end \<le> start\<close>, and an edit of an existing session to an end
  time \<open>\<le>\<close> its start, raise the validation error and leave the state, and with it
  the session collection, unchanged.
\<close>

theorem session_duration_checked:
  "(addManualStudyLog st newId subj startT endT q g gt n = Inr st' \<longrightarrow>
      (\<exists>tlog. st' = st\<lparr>timeLogs := timeLogs st @ [tlog]\<rparr>
         \<and> startTime tlog = startT \<and> endTime tlog = endT
         \<and> duration tlog = (endT - startT) div 1000 \<and> 0 < duration tlog))
   \<and> (endT \<le> startT \<longrightarrow>
        addManualStudyLog st newId subj startT endT q g gt n
          = Inl (Error ''End time must be after start time'')
        \<and> state_after st (addManualStudyLog st newId subj startT endT q g gt n) = st)
   \<and> (editStudyLogEndTime st logId newEndTime = Inr st' \<longrightarrow>
        st' = st\<lparr>timeLogs := map (\<lambda>tlog. if log_id tlog = logId
                  then tlog\<lparr>endTime := newEndTime,
                            duration := (newEndTime - startTime tlog) div 1000,
                            timestamp := newEndTime\<rparr>
                  else tlog) (timeLogs st)\<rparr>
        \<and> (\<forall>tlog\<in>set (timeLogs st'). log_id tlog = logId \<longrightarrow>
              duration tlog = (endTime tlog - startTime tlog) div 1000 \<and> 0 < duration tlog))
   \<and> (tlog0 \<in> set (timeLogs st) \<and> log_id tlog0 = logId \<and> newEndTime \<le> startTime tlog0 \<longrightarrow>
        editStudyLogEndTime st logId newEndTime = Inl (Error ''End time must be after start time'')
        \<and> state_after st (editStudyLogEndTime st logId newEndTime) = st)"
proof (intro conjI impI)
  assume "addManualStudyLog st newId subj startT endT q g gt n = Inr st'"
  then show "\<exists>tlog. st' = st\<lparr>timeLogs := timeLogs st @ [tlog]\<rparr>
         \<and> startTime tlog = startT \<and> endTime tlog = endT
         \<and> duration tlog = (endT - startT) div 1000 \<and> 0 < duration tlog"
    unfolding addManualStudyLog_def Let_def
    by (cases "(endT - startT) div 1000 \<le> 0") auto
next
  assume "endT \<le> startT"
  then have "(endT - startT) div 1000 \<le> 0" by (rule div_1000_nonpos)
  then show "addManualStudyLog st newId subj startT endT q g gt n
          = Inl (Error ''End time must be after start time'')"
    by (simp add: addManualStudyLog_def)
  then show "state_after st (addManualStudyLog st newId subj startT endT q g gt n) = st"
    by (simp add: state_after_def)
next
  assume a: "editStudyLogEndTime st logId newEndTime = Inr st'"
  then obtain logs' where m: "mapEndTime logId newEndTime (timeLogs st) = Inr logs'"
    and s: "st' = st\<lparr>timeLogs := logs'\<rparr>"
    by (auto simp: editStudyLogEndTime_def split: sum.splits)
  from mapEndTime_Inr [OF m] s
  show "st' = st\<lparr>timeLogs := map (\<lambda>tlog. if log_id tlog = logId
                  then tlog\<lparr>endTime := newEndTime,
                            duration := (newEndTime - startTime tlog) div 1000,
                            timestamp := newEndTime\<rparr>
                  else tlog) (timeLogs st)\<rparr>"
    by simp
  show "\<forall>tlog\<in>set (timeLogs st'). log_id tlog = logId \<longrightarrow>
              duration tlog = (endTime tlog - startTime tlog) div 1000 \<and> 0 < duration tlog"
  proof (intro ballI impI)
    fix tlog
    assume t: "tlog \<in> set (timeLogs st')" and i: "log_id tlog = logId"
    from t s have "tlog \<in> set logs'" by simp
    from mapEndTime_durations [OF m this i]
    show "duration tlog = (endTime tlog - startTime tlog) div 1000 \<and> 0 < duration tlog" .
  qed
next
  assume a: "tlog0 \<in> set (timeLogs st) \<and> log_id tlog0 = logId \<and> newEndTime \<le> startTime tlog0"
  then have "(newEndTime - startTime tlog0) div 1000 \<le> 0" by (simp add: div_1000_nonpos)
  with a have "mapEndTime logId newEndTime (timeLogs st) = Inl (Error ''End time must be after start time'')"
    using mapEndTime_Inl [of tlog0 "timeLogs st" logId newEndTime] by blast
  then show "editStudyLogEndTime st logId newEndTime = Inl (Error ''End time must be after start time'')"
    by (simp add: editStudyLogEndTime_def)
  then show "state_after st (editStudyLogEndTime st logId newEndTime) = st"
    by (simp add: state_after_def)
qed

theorem session_duration_checked_witness:
  "addManualStudyLog example_state ''1700000009999'' chemistry 9000000 9005999 3 None None None
      = Inr (example_state\<lparr>timeLogs := [example_log, added_log]\<rparr>)
   \<and> (\<exists>tlog. example_state\<lparr>timeLogs := [example_log, added_log]\<rparr>
          = example_state\<lparr>timeLogs := timeLogs example_state @ [tlog]\<rparr>
         \<and> startTime tlog = 9000000 \<and> endTime tlog = 9005999
         \<and> duration tlog = (9005999 - 9000000) div 1000 \<and> 0 < duration tlog)
   \<and> (9000000 :: int) \<le> 9000000
   \<and> addManualStudyLog example_state ''1700000009999'' chemistry 9000000 9000000 3 None None None
        = Inl (Error ''End time must be after start time'')
   \<and> editStudyLogEndTime example_state ''1700000000000'' 3607500
        = Inr (example_state\<lparr>timeLogs :=
             [example_log\<lparr>endTime := 3607500, duration := 7, timestamp := 3607500\<rparr>]\<rparr>)
   \<and> example_log \<in> set (timeLogs example_state)
   \<and> log_id example_log = ''1700000000000''
   \<and> (3600000 :: int) \<le> startTime example_log
   \<and> editStudyLogEndTime example_state ''1700000000000'' 3600000
        = Inl (Error ''End time must be after start time'')
   \<and> state_after example_state (editStudyLogEndTime example_state ''1700000000000'' 3600000)
        = example_state"
proof -
  let ?ok = "example_state\<lparr>timeLogs := [example_log, added_log]\<rparr>"
  let ?ed = "example_state\<lparr>timeLogs :=
             [example_log\<lparr>endTime := 3607500, duration := 7, timestamp := 3607500\<rparr>]\<rparr>"
  have h1: "addManualStudyLog example_state ''1700000009999'' chemistry 9000000 9005999 3 None None None
      = Inr ?ok"
    by (simp add: addManualStudyLog_def example_state_def added_log_def)
  have h2: "(9000000 :: int) \<le> 9000000" by simp
  have h3: "editStudyLogEndTime example_state ''1700000000000'' 3607500 = Inr ?ed"
    by (simp add: editStudyLogEndTime_def example_state_def example_log_def)
  have h4: "example_log \<in> set (timeLogs example_state) \<and> log_id example_log = ''1700000000000''
      \<and> (3600000 :: int) \<le> startTime example_log"
    by (simp add: example_state_def example_log_def)
  note ok = session_duration_checked [of example_state "''1700000009999''" chemistry 9000000
      9005999 3 None None None ?ok "''1700000000000''" 3607500 example_log]
  note ko = session_duration_checked [of example_state "''1700000009999''" chemistry 9000000
      9000000 3 None None None ?ed "''1700000000000''" 3600000 example_log]
  from ok h1 have c1: "\<exists>tlog. ?ok = example_state\<lparr>timeLogs := timeLogs example_state @ [tlog]\<rparr>
         \<and> startTime tlog = 9000000 \<and> endTime tlog = 9005999
         \<and> duration tlog = (9005999 - 9000000) div 1000 \<and> 0 < duration tlog"
    by blast
  from ko h2 have c2: "addManualStudyLog example_state ''1700000009999'' chemistry 9000000 9000000 3 None None None
        = Inl (Error ''End time must be after start time'')"
    by blast
  from ko h4 have c4: "editStudyLogEndTime example_state ''1700000000000'' 3600000
        = Inl (Error ''End time must be after start time'')
      \<and> state_after example_state (editStudyLogEndTime example_state ''1700000000000'' 3600000)
        = example_state"
    by blast
  from h1 c1 h2 c2 h3 h4 c4 show ?thesis by blast
qed

section \<open>Question counts\<close>

text \<open>
  C9, as stated, fails on the store operation: \<open>editStudyLogQuestionCount\<close> checks nothing,
  raises nothing, and writes a negative count into the matching record.
\<close>

theorem question_count_unvalidated_counterexample:
  "editStudyLogQuestionCount example_state ''1700000000000'' (- 5)
     = example_state\<lparr>timeLogs := [example_log\<lparr>questionCount := - 5\<rparr>]\<rparr>
   \<and> editStudyLogQuestionCount example_state ''1700000000000'' (- 5) \<noteq> example_state
   \<and> questionCount (hd (timeLogs (editStudyLogQuestionCount example_state ''1700000000000'' (- 5)))) < 0"
  by (simp add: editStudyLogQuestionCount_def example_state_def example_log_def)

lemma editStudyLogQuestionCount_nonneg:
  "0 \<le> n \<Longrightarrow> \<forall>tlog\<in>set (timeLogs st). 0 \<le> questionCount tlog \<Longrightarrow>
   \<forall>tlog\<in>set (timeLogs (editStudyLogQuestionCount st logId n)). 0 \<le> questionCount tlog"
  by (auto simp: editStudyLogQuestionCount_def)

text \<open>
  C9, amended. The check is in the edit form: \<open>handleEditQuestionCount\<close> answers a
  negative count with the message ``Question count cannot be negative'', does not call the
  store, and leaves the state unchanged; an edit through the form keeps every question
  count of the collection non-negative. The store operation itself writes the count it is
  given into every record with the matching id.
\<close>

theorem question_count_form_guard:
  "(editingLog ui = Some el \<and> newQuestionCount ui < 0 \<longrightarrow>
      handleEditQuestionCount st ui = (st, ui\<lparr>error := ''Question count cannot be negative''\<rparr>))
   \<and> ((\<forall>tlog\<in>set (timeLogs st). 0 \<le> questionCount tlog) \<longrightarrow>
      (\<forall>tlog\<in>set (timeLogs (fst (handleEditQuestionCount st ui))). 0 \<le> questionCount tlog))
   \<and> timeLogs (editStudyLogQuestionCount st logId n)
        = map (\<lambda>tlog. if log_id tlog = logId then tlog\<lparr>questionCount := n\<rparr> else tlog) (timeLogs st)"
proof (intro conjI impI)
  assume "editingLog ui = Some el \<and> newQuestionCount ui < 0"
  then show "handleEditQuestionCount st ui = (st, ui\<lparr>error := ''Question count cannot be negative''\<rparr>)"
    by (simp add: handleEditQuestionCount_def)
next
  assume inv: "\<forall>tlog\<in>set (timeLogs st). 0 \<le> questionCount tlog"
  show "\<forall>tlog\<in>set (timeLogs (fst (handleEditQuestionCount st ui))). 0 \<le> questionCount tlog"
  proof (cases "editingLog ui")
    case None
    with inv show ?thesis by (simp add: handleEditQuestionCount_def)
  next
    case (Some el')
    show ?thesis
    proof (cases "newQuestionCount ui < 0")
      case True
      with Some inv show ?thesis by (simp add: handleEditQuestionCount_def)
    next
      case False
      then have "0 \<le> newQuestionCount ui" by simp
      from editStudyLogQuestionCount_nonneg [OF this inv] Some False
      show ?thesis by (simp add: handleEditQuestionCount_def)
    qed
  qed
next
  show "timeLogs (editStudyLogQuestionCount st logId n)
        = map (\<lambda>tlog. if log_id tlog = logId then tlog\<lparr>questionCount := n\<rparr> else tlog) (timeLogs st)"
    by (simp add: editStudyLogQuestionCount_def)
qed

theorem question_count_form_guard_witness:
  "editingLog example_ui = Some example_log \<and> newQuestionCount example_ui < 0
   \<and> handleEditQuestionCount example_state example_ui
       = (example_state, example_ui\<lparr>error := ''Question count cannot be negative''\<rparr>)
   \<and> 0 \<le> questionCount example_log
   \<and> 0 \<le> questionCount (hd (timeLogs (fst (handleEditQuestionCount example_state example_ui))))"
proof -
  have h1: "editingLog example_ui = Some example_log \<and> newQuestionCount example_ui < 0"
    by (simp add: example_ui_def)
  have h2: "\<forall>tlog\<in>set (timeLogs example_state). 0 \<le> questionCount tlog"
    by (simp add: example_state_def example_log_def)
  note g = question_count_form_guard [of example_ui example_log example_state "''1''" 0]
  from g h1 have c1: "handleEditQuestionCount example_state example_ui
       = (example_state, example_ui\<lparr>error := ''Question count cannot be negative''\<rparr>)"
    by blast
  from g h2 have c2: "\<forall>tlog\<in>set (timeLogs (fst (handleEditQuestionCount example_state example_ui))).
      0 \<le> questionCount tlog"
    by blast
  from c1 have "timeLogs (fst (handleEditQuestionCount example_state example_ui)) = [example_log]"
    by (simp add: example_state_def)
  with c2 have c3: "0 \<le> questionCount (hd (timeLogs (fst (handleEditQuestionCount example_state example_ui))))"
    by simp
  have "0 \<le> questionCount example_log" by (simp add: example_log_def)
  with h1 c1 c3 show ?thesis by blast
qed

section \<open>Longest streak\<close>

text \<open>
  C8. An evaluation of the streak engine sets \<open>longestStreak\<close> to the maximum of its
  previous value and the new \<open>currentStreak\<close>, so it never decreases: for every state,
  every session collection and every instant.
\<close>

theorem longestStreak_monotone:
  "longestStreak (streakData (updateStreak now st))
     = max (longestStreak (streakData st)) (currentStreak (streakData (updateStreak now st)))
   \<and> longestStreak (streakData st) \<le> longestStreak (streakData (updateStreak now st))"
  by (simp add: updateStreak_def Let_def max.commute)

section \<open>Switching the exam type\<close>

lemma subjectKeys_simps:
  "subjectKeys JEE = [physics, chemistry, mathematics]"
  "subjectKeys NEET = [physics, chemistry, botany, zoology]"
  by (simp_all add: subjectKeys_def DEFAULT_EXAM_CONFIGS_def)

text \<open>
  C4. When the new settings carry another exam type, one call of
  \<open>handleUpdateSettings\<close> keeps exactly the sessions and the tasks whose subject is
  \<open>classes\<close> or a subject of the new configuration, each kept record as it was and in
  its place; empties the test records; and sets the active subject to the first subject of
  the new configuration. Switching to NEET discards the mathematics records and keeps the
  others.
\<close>

theorem exam_type_switch:
  assumes "examType newSettings \<noteq> examType (settings st)"
  shows "timeLogs (handleUpdateSettings st newSettings)
           = filter (\<lambda>tlog. subject tlog = classes \<or> subject tlog \<in> set (subjectKeys (examType newSettings)))
               (timeLogs st)
       \<and> tasks (handleUpdateSettings st newSettings)
           = filter (\<lambda>task. task_subject task = classes \<or> task_subject task \<in> set (subjectKeys (examType newSettings)))
               (tasks st)
       \<and> tests (handleUpdateSettings st newSettings) = []
       \<and> subjectKeys (examType newSettings) \<noteq> []
       \<and> activeSubject (handleUpdateSettings st newSettings) = hd (subjectKeys (examType newSettings))
       \<and> settings (handleUpdateSettings st newSettings) = newSettings
       \<and> (examType newSettings = NEET \<longrightarrow>
            timeLogs (handleUpdateSettings st newSettings)
              = filter (\<lambda>tlog. subject tlog \<noteq> mathematics) (timeLogs st)
          \<and> tasks (handleUpdateSettings st newSettings)
              = filter (\<lambda>task. task_subject task \<noteq> mathematics) (tasks st))"
proof -
  have ne: "subjectKeys (examType newSettings) \<noteq> []"
    by (cases "examType newSettings") (simp_all add: subjectKeys_simps)
  have l: "timeLogs (handleUpdateSettings st newSettings)
           = filter (\<lambda>tlog. subject tlog = classes \<or> subject tlog \<in> set (subjectKeys (examType newSettings)))
               (timeLogs st)"
    using assms by (simp add: handleUpdateSettings_def Let_def)
  have t: "tasks (handleUpdateSettings st newSettings)
           = filter (\<lambda>task. task_subject task = classes \<or> task_subject task \<in> set (subjectKeys (examType newSettings)))
               (tasks st)"
    using assms by (simp add: handleUpdateSettings_def Let_def)
  have r: "tests (handleUpdateSettings st newSettings) = []
       \<and> activeSubject (handleUpdateSettings st newSettings) = hd (subjectKeys (examType newSettings))
       \<and> settings (handleUpdateSettings st newSettings) = newSettings"
    using assms by (simp add: handleUpdateSettings_def Let_def)
  have q: "\<And>s. (s = classes \<or> s \<in> set (subjectKeys NEET)) = (s \<noteq> mathematics)"
    by (case_tac s) (simp_all add: subjectKeys_simps)
  have n: "examType newSettings = NEET \<longrightarrow>
            timeLogs (handleUpdateSettings st newSettings)
              = filter (\<lambda>tlog. subject tlog \<noteq> mathematics) (timeLogs st)
          \<and> tasks (handleUpdateSettings st newSettings)
              = filter (\<lambda>task. task_subject task \<noteq> mathematics) (tasks st)"
  proof
    assume "examType newSettings = NEET"
    with l t show "timeLogs (handleUpdateSettings st newSettings)
              = filter (\<lambda>tlog. subject tlog \<noteq> mathematics) (timeLogs st)
          \<and> tasks (handleUpdateSettings st newSettings)
              = filter (\<lambda>task. task_subject task \<noteq> mathematics) (tasks st)"
      by (simp only: q)
  qed
  from l t r ne n show ?thesis by blast
qed

theorem exam_type_switch_witness:
  "examType neet_settings \<noteq> examType (settings jee_state)
   \<and> examType neet_settings = NEET
   \<and> timeLogs (handleUpdateSettings jee_state neet_settings) = [example_log, classes_log]
   \<and> tasks (handleUpdateSettings jee_state neet_settings) = [physics_task]
   \<and> tests (handleUpdateSettings jee_state neet_settings) = []
   \<and> activeSubject (handleUpdateSettings jee_state neet_settings) = physics"
proof -
  have h: "examType neet_settings \<noteq> examType (settings jee_state)"
    by (simp add: neet_settings_def jee_state_def example_settings_def)
  have k: "examType neet_settings = NEET" by (simp add: neet_settings_def)
  note w = exam_type_switch [OF h]
  from w k have "timeLogs (handleUpdateSettings jee_state neet_settings)
      = filter (\<lambda>tlog. subject tlog \<noteq> mathematics) (timeLogs jee_state)" by blast
  then have c1: "timeLogs (handleUpdateSettings jee_state neet_settings) = [example_log, classes_log]"
    by (simp add: jee_state_def example_log_def maths_log_def classes_log_def)
  from w k have "tasks (handleUpdateSettings jee_state neet_settings)
      = filter (\<lambda>task. task_subject task \<noteq> mathematics) (tasks jee_state)" by blast
  then have c2: "tasks (handleUpdateSettings jee_state neet_settings) = [physics_task]"
    by (simp add: jee_state_def maths_task_def physics_task_def)
  from w have c3: "tests (handleUpdateSettings jee_state neet_settings) = []" by blast
  from w have "activeSubject (handleUpdateSettings jee_state neet_settings)
      = hd (subjectKeys (examType neet_settings))" by blast
  then have c4: "activeSubject (handleUpdateSettings jee_state neet_settings) = physics"
    by (simp add: k subjectKeys_simps)
  from h k c1 c2 c3 c4 show ?thesis by blast
qed

section \<open>Totals by subject\<close>

text \<open>
  C6, as stated, fails on the code: the totals are sums of doubles, and from \<open>2^53\<close> on a
  sum depends on the order of its terms. With question counts \<open>2^53\<close>, 1 and 1 on three
  physics sessions, the total is \<open>2^53\<close> in that order and \<open>2^53 + 2\<close> with the large
  count last.
\<close>

theorem totals_order_dependent_counterexample:
  "mset [count_log ''1700000000001'' 9007199254740992, count_log ''1700000000002'' 1,
         count_log ''1700000000003'' 1]
     = mset [count_log ''1700000000002'' 1, count_log ''1700000000003'' 1,
             count_log ''1700000000001'' 9007199254740992]
   \<and> map_of (getTotalQuestionsBySubject example_settings
         [count_log ''1700000000001'' 9007199254740992, count_log ''1700000000002'' 1,
          count_log ''1700000000003'' 1]) physics = Some 9007199254740992
   \<and> map_of (getTotalQuestionsBySubject example_settings
         [count_log ''1700000000002'' 1, count_log ''1700000000003'' 1,
          count_log ''1700000000001'' 9007199254740992]) physics = Some 9007199254740994
   \<and> getTotalQuestionsBySubject example_settings
         [count_log ''1700000000001'' 9007199254740992, count_log ''1700000000002'' 1,
          count_log ''1700000000003'' 1]
     \<noteq> getTotalQuestionsBySubject example_settings
         [count_log ''1700000000002'' 1, count_log ''1700000000003'' 1,
          count_log ''1700000000001'' 9007199254740992]"
proof -
  have m: "mset [count_log ''1700000000001'' 9007199254740992, count_log ''1700000000002'' 1,
         count_log ''1700000000003'' 1]
     = mset [count_log ''1700000000002'' 1, count_log ''1700000000003'' 1,
             count_log ''1700000000001'' 9007199254740992]"
    by simp
  have a: "map_of (getTotalQuestionsBySubject example_settings
         [count_log ''1700000000001'' 9007199254740992, count_log ''1700000000002'' 1,
          count_log ''1700000000003'' 1]) physics = Some 9007199254740992"
    by code_simp
  have b: "map_of (getTotalQuestionsBySubject example_settings
         [count_log ''1700000000002'' 1, count_log ''1700000000003'' 1,
          count_log ''1700000000001'' 9007199254740992]) physics = Some 9007199254740994"
    by code_simp
  from a b have "getTotalQuestionsBySubject example_settings
         [count_log ''1700000000001'' 9007199254740992, count_log ''1700000000002'' 1,
          count_log ''1700000000003'' 1]
     \<noteq> getTotalQuestionsBySubject example_settings
         [count_log ''1700000000002'' 1, count_log ''1700000000003'' 1,
          count_log ''1700000000001'' 9007199254740992]"
    by auto
  with m a b show ?thesis by blast
qed

text \<open>Below \<open>2^53\<close> an integer is a double, and adding integers is exact.\<close>

lemma round_half_even_of_int: "round_half_even (of_int m) = m"
  by (simp add: round_half_even_def)

lemma binade_of_int_le:
  assumes "k \<noteq> 0" "\<bar>k\<bar> < 2 ^ 53"
  shows "binade (of_int k) \<le> 52"
proof -
  have a: "quotient_of \<bar>rat_of_int k\<bar> = (\<bar>k\<bar>, 1)"
    using quotient_of_rat_of_int [of "\<bar>k\<bar>"] by simp
  have "bitlen \<bar>k\<bar> \<le> 53"
    using assms(2) by (simp add: bitlen_le_iff_power)
  moreover have "bitlen 1 = 1" by (simp add: bitlen_alt_def)
  ultimately have "bitlen \<bar>k\<bar> - bitlen 1 \<le> 52" by simp
  then show ?thesis
    unfolding binade_def a by (simp add: Let_def del: of_int_abs)
qed

lemma pow2_nonpos: "e \<le> 0 \<Longrightarrow> pow2 e = 1 / 2 ^ nat (- e)"
  by (cases "e = 0") (simp_all add: pow2_def)

lemma fl_of_int:
  assumes "\<bar>k\<bar> < 2 ^ 53"
  shows "fl (of_int k) = of_int k"
proof (cases "k = 0")
  case True
  then show ?thesis by (simp add: fl_def)
next
  case False
  define n where "n = nat (52 - binade (rat_of_int k))"
  have u: "pow2 (binade (rat_of_int k) - 52) = 1 / 2 ^ n"
    using binade_of_int_le [OF False assms] by (simp add: pow2_nonpos n_def)
  have "\<bar>rat_of_int k\<bar> * 2 ^ n = rat_of_int (\<bar>k\<bar> * 2 ^ n)" by simp
  then have r: "round_half_even (\<bar>rat_of_int k\<bar> * 2 ^ n) = \<bar>k\<bar> * 2 ^ n"
    by (simp only: round_half_even_of_int)
  have "fl (rat_of_int k) = sgn (rat_of_int k) * rat_of_int (\<bar>k\<bar> * 2 ^ n) * (1 / 2 ^ n)"
    using False by (simp add: fl_def Let_def u r del: of_int_mult of_int_power)
  also have "\<dots> = sgn (rat_of_int k) * \<bar>rat_of_int k\<bar>" by simp
  also have "\<dots> = rat_of_int k" by (simp add: sgn_mult_abs)
  finally show ?thesis .
qed

lemma addTotal_exact:
  assumes "distinct (map fst its)" and "\<forall>(k, i)\<in>set its. \<bar>i + n\<bar> < 2 ^ 53"
  shows "addTotal s (of_int n) (map (\<lambda>(k, i). (k, of_int i)) its)
       = map (\<lambda>(k, i). (k, of_int (if k = s then i + n else i))) its"
  using assms
proof (induction its)
  case Nil
  then show ?case by simp
next
  case (Cons ki its)
  obtain k i where ki: "ki = (k, i)" by (cases ki)
  show ?case
  proof (cases "k = s")
    case True
    from Cons.prems(2) ki have "\<bar>i + n\<bar> < 2 ^ 53" by simp
    then have f: "fl (rat_of_int i + rat_of_int n) = rat_of_int (i + n)"
      using fl_of_int [of "i + n"] by simp
    from Cons.prems(1) ki True have "s \<notin> fst ` set its" by simp
    then have "map (\<lambda>(k, i). (k, rat_of_int (if k = s then i + n else i))) its
        = map (\<lambda>(k, i). (k, rat_of_int i)) its"
      by (induction its) auto
    with True ki f show ?thesis by simp
  next
    case False
    with Cons ki show ?thesis by simp
  qed
qed

lemma absSum_nonneg: "0 \<le> sum_list (map (\<lambda>tlog. \<bar>f tlog :: int\<bar>) logs)"
  by (induction logs) auto

lemma foldl_addTotal_exact:
  assumes "distinct (map fst its)"
    and "\<forall>(k, i)\<in>set its. \<bar>i\<bar> + sum_list (map (\<lambda>tlog. \<bar>f tlog\<bar>) logs) < 2 ^ 53"
  shows "foldl (\<lambda>totals tlog. addTotal (subject tlog) (of_int (f tlog)) totals)
           (map (\<lambda>(k, i). (k, of_int i)) its) logs
       = map (\<lambda>(k, i). (k, of_int (i + sum_list (map f (filter (\<lambda>tlog. subject tlog = k) logs))))) its"
  using assms
proof (induction logs arbitrary: its)
  case Nil
  then show ?case by simp
next
  case (Cons a logs)
  let ?its' = "map (\<lambda>(k, i). (k, if k = subject a then i + f a else i)) its"
  have s: "sum_list (map (\<lambda>tlog. \<bar>f tlog\<bar>) (a # logs)) = \<bar>f a\<bar> + sum_list (map (\<lambda>tlog. \<bar>f tlog\<bar>) logs)" by simp
  have b: "\<forall>(k, i)\<in>set its. \<bar>i + f a\<bar> < 2 ^ 53"
  proof (clarify)
    fix k i
    assume "(k, i) \<in> set its"
    with Cons.prems(2) have "\<bar>i\<bar> + sum_list (map (\<lambda>tlog. \<bar>f tlog\<bar>) (a # logs)) < 2 ^ 53" by auto
    with s absSum_nonneg [of f logs] show "\<bar>i + f a\<bar> < 2 ^ 53" by linarith
  qed
  have step: "addTotal (subject a) (of_int (f a)) (map (\<lambda>(k, i). (k, of_int i)) its)
      = map (\<lambda>(k, i). (k, of_int i)) ?its'"
    unfolding addTotal_exact [OF Cons.prems(1) b] by (simp add: o_def split_def)
  have d: "distinct (map fst ?its')"
    using Cons.prems(1) by (simp add: o_def split_def)
  have b': "\<forall>(k, i)\<in>set ?its'. \<bar>i\<bar> + sum_list (map (\<lambda>tlog. \<bar>f tlog\<bar>) logs) < 2 ^ 53"
  proof (clarify)
    fix k i
    assume "(k, i) \<in> set ?its'"
    then obtain j where j: "(k, j) \<in> set its" and i: "i = (if k = subject a then j + f a else j)"
      by auto
    from Cons.prems(2) j have "\<bar>j\<bar> + sum_list (map (\<lambda>tlog. \<bar>f tlog\<bar>) (a # logs)) < 2 ^ 53" by auto
    with s i show "\<bar>i\<bar> + sum_list (map (\<lambda>tlog. \<bar>f tlog\<bar>) logs) < 2 ^ 53" by (auto split: if_splits)
  qed
  have "foldl (\<lambda>totals tlog. addTotal (subject tlog) (of_int (f tlog)) totals)
           (map (\<lambda>(k, i). (k, of_int i)) its) (a # logs)
      = foldl (\<lambda>totals tlog. addTotal (subject tlog) (of_int (f tlog)) totals)
           (map (\<lambda>(k, i). (k, of_int i)) ?its') logs"
    by (simp add: step)
  also have "\<dots> = map (\<lambda>(k, i). (k, of_int (i + sum_list (map f (filter (\<lambda>tlog. subject tlog = k) logs))))) ?its'"
    by (rule Cons.IH [OF d b'])
  also have "\<dots> = map (\<lambda>(k, i). (k, of_int (i + sum_list (map f (filter (\<lambda>tlog. subject tlog = k) (a # logs)))))) its"
    by (auto simp: o_def split_def)
  finally show ?case .
qed


lemma addTotal_keys: "map fst (addTotal s n totals) = map fst totals"
  by (induction totals) auto

lemma addTotal_other: "s \<noteq> s' \<Longrightarrow> map_of (addTotal s' n totals) s = map_of totals s"
  by (induction totals) auto

lemma foldl_addTotal_keys:
  "map fst (foldl (\<lambda>totals tlog. addTotal (subject tlog) (g tlog) totals) totals logs)
     = map fst totals"
  by (induction logs arbitrary: totals) (simp_all add: addTotal_keys)

lemma foldl_addTotal_other:
  "s \<notin> subject ` set logs \<Longrightarrow>
   map_of (foldl (\<lambda>totals tlog. addTotal (subject tlog) (g tlog) totals) totals logs) s
     = map_of totals s"
  by (induction logs arbitrary: totals) (simp_all add: addTotal_other)

lemma sum_map_mset:
  fixes g :: "'a \<Rightarrow> int"
  assumes "mset xs = mset ys"
  shows "sum_list (map g xs) = sum_list (map g ys)"
proof -
  from assms have "mset (map g xs) = mset (map g ys)" by (metis mset_map)
  then have "sum_mset (mset (map g xs)) = sum_mset (mset (map g ys))" by (rule arg_cong)
  then show ?thesis by (simp only: sum_mset_sum_list)
qed

lemma sum_filter_mset:
  fixes g :: "'a \<Rightarrow> int"
  assumes "mset xs = mset ys"
  shows "sum_list (map g (filter P xs)) = sum_list (map g (filter P ys))"
proof -
  from assms have "mset (filter P xs) = mset (filter P ys)" by (metis mset_filter)
  then show ?thesis by (rule sum_map_mset)
qed

lemma initTotals_distinct: "distinct (classes # subjectKeys (examType stg))"
  by (cases "examType stg") (simp_all add: subjectKeys_simps)

lemma initTotals_ints:
  "initTotals stg
     = map (\<lambda>(k, i). (k, of_int i)) (map (\<lambda>k. (k, 0)) (classes # subjectKeys (examType stg)))"
  by (simp add: initTotals_def o_def)

lemma totals_exact:
  assumes "sum_list (map (\<lambda>tlog. \<bar>f tlog\<bar>) logs) < 2 ^ 53"
  shows "foldl (\<lambda>totals tlog. addTotal (subject tlog) (of_int (f tlog)) totals) (initTotals stg) logs
       = map (\<lambda>k. (k, of_int (sum_list (map f (filter (\<lambda>tlog. subject tlog = k) logs)))))
           (classes # subjectKeys (examType stg))"
proof -
  let ?its = "map (\<lambda>k. (k, 0 :: int)) (classes # subjectKeys (examType stg))"
  have d: "distinct (map fst ?its)"
    using initTotals_distinct [of stg] by (simp add: o_def)
  have b: "\<forall>(k, i)\<in>set ?its. \<bar>i\<bar> + sum_list (map (\<lambda>tlog. \<bar>f tlog\<bar>) logs) < 2 ^ 53"
    using assms by auto
  show ?thesis
    unfolding initTotals_ints foldl_addTotal_exact [OF d b] by (simp add: o_def)
qed

lemma totals_lookup:
  "s \<in> set ks \<Longrightarrow> map_of (map (\<lambda>k. (k, g k)) ks) s = Some (g s)"
  by (induction ks) auto

lemma initTotals_lookup:
  "s \<in> set (classes # subjectKeys (examType stg)) \<Longrightarrow> map_of (initTotals stg) s = Some 0"
  unfolding initTotals_def using totals_lookup [of s "classes # subjectKeys (examType stg)" "\<lambda>k. 0"]
  by simp

text \<open>
  C6, amended. On session records whose durations have absolute values that sum to less
  than \<open>2^53\<close>, \<open>getTotalTimeBySubject\<close> gives the same totals on any two orderings
  of the records, the value under a key being the sum over the records of that subject; the
  same holds of \<open>getTotalQuestionsBySubject\<close> and the question counts (the functions
  only read the list). Whatever the records, the keys of the result are \<open>classes\<close> and
  the subjects of the active exam configuration, and the value under a key with no record
  is \<open>0\<close>.
\<close>

theorem totals_order_invariant:
  assumes "mset logs = mset logs'"
  shows "(sum_list (map (\<lambda>tlog. \<bar>duration tlog\<bar>) logs) < 2 ^ 53 \<longrightarrow>
            getTotalTimeBySubject stg logs = getTotalTimeBySubject stg logs'
          \<and> (\<forall>s\<in>set (classes # subjectKeys (examType stg)).
                map_of (getTotalTimeBySubject stg logs) s
                  = Some (of_int (sum_list (map duration (filter (\<lambda>tlog. subject tlog = s) logs))))))
       \<and> (sum_list (map (\<lambda>tlog. \<bar>questionCount tlog\<bar>) logs) < 2 ^ 53 \<longrightarrow>
            getTotalQuestionsBySubject stg logs = getTotalQuestionsBySubject stg logs'
          \<and> (\<forall>s\<in>set (classes # subjectKeys (examType stg)).
                map_of (getTotalQuestionsBySubject stg logs) s
                  = Some (of_int (sum_list (map questionCount (filter (\<lambda>tlog. subject tlog = s) logs))))))
       \<and> map fst (getTotalTimeBySubject stg logs) = classes # subjectKeys (examType stg)
       \<and> map fst (getTotalQuestionsBySubject stg logs) = classes # subjectKeys (examType stg)
       \<and> (\<forall>s\<in>set (classes # subjectKeys (examType stg)). s \<notin> subject ` set logs \<longrightarrow>
              map_of (getTotalTimeBySubject stg logs) s = Some 0
            \<and> map_of (getTotalQuestionsBySubject stg logs) s = Some 0)"
proof -
  let ?ks = "classes # subjectKeys (examType stg)"
  have part: "foldl (\<lambda>totals tlog. addTotal (subject tlog) (of_int (f tlog)) totals) (initTotals stg) logs
        = foldl (\<lambda>totals tlog. addTotal (subject tlog) (of_int (f tlog)) totals) (initTotals stg) logs'
      \<and> (\<forall>s\<in>set ?ks.
            map_of (foldl (\<lambda>totals tlog. addTotal (subject tlog) (of_int (f tlog)) totals)
                      (initTotals stg) logs) s
              = Some (of_int (sum_list (map f (filter (\<lambda>tlog. subject tlog = s) logs)))))"
    if bound: "sum_list (map (\<lambda>tlog. \<bar>f tlog\<bar>) logs) < 2 ^ 53" for f :: "TimeLog \<Rightarrow> int"
  proof -
    have "sum_list (map (\<lambda>tlog. \<bar>f tlog\<bar>) logs') = sum_list (map (\<lambda>tlog. \<bar>f tlog\<bar>) logs)"
      by (rule sum_map_mset [OF assms [symmetric]])
    with bound have bound': "sum_list (map (\<lambda>tlog. \<bar>f tlog\<bar>) logs') < 2 ^ 53" by simp
    have e: "foldl (\<lambda>totals tlog. addTotal (subject tlog) (of_int (f tlog)) totals) (initTotals stg) logs
        = foldl (\<lambda>totals tlog. addTotal (subject tlog) (of_int (f tlog)) totals) (initTotals stg) logs'"
      unfolding totals_exact [OF bound] totals_exact [OF bound']
      using sum_filter_mset [OF assms, of f] by simp
    have v: "\<forall>s\<in>set ?ks.
            map_of (foldl (\<lambda>totals tlog. addTotal (subject tlog) (of_int (f tlog)) totals)
                      (initTotals stg) logs) s
              = Some (of_int (sum_list (map f (filter (\<lambda>tlog. subject tlog = s) logs))))"
      unfolding totals_exact [OF bound] using totals_lookup by fast
    from e v show ?thesis by blast
  qed
  have t: "sum_list (map (\<lambda>tlog. \<bar>duration tlog\<bar>) logs) < 2 ^ 53 \<longrightarrow>
            getTotalTimeBySubject stg logs = getTotalTimeBySubject stg logs'
          \<and> (\<forall>s\<in>set ?ks.
                map_of (getTotalTimeBySubject stg logs) s
                  = Some (of_int (sum_list (map duration (filter (\<lambda>tlog. subject tlog = s) logs)))))"
    unfolding getTotalTimeBySubject_def using part [of duration] by blast
  have q: "sum_list (map (\<lambda>tlog. \<bar>questionCount tlog\<bar>) logs) < 2 ^ 53 \<longrightarrow>
            getTotalQuestionsBySubject stg logs = getTotalQuestionsBySubject stg logs'
          \<and> (\<forall>s\<in>set ?ks.
                map_of (getTotalQuestionsBySubject stg logs) s
                  = Some (of_int (sum_list (map questionCount (filter (\<lambda>tlog. subject tlog = s) logs)))))"
    unfolding getTotalQuestionsBySubject_def using part [of questionCount] by blast
  have k1: "map fst (getTotalTimeBySubject stg logs) = ?ks"
    unfolding getTotalTimeBySubject_def foldl_addTotal_keys by (simp add: initTotals_def o_def)
  have k2: "map fst (getTotalQuestionsBySubject stg logs) = ?ks"
    unfolding getTotalQuestionsBySubject_def foldl_addTotal_keys by (simp add: initTotals_def o_def)
  have z: "\<forall>s\<in>set ?ks. s \<notin> subject ` set logs \<longrightarrow>
              map_of (getTotalTimeBySubject stg logs) s = Some 0
            \<and> map_of (getTotalQuestionsBySubject stg logs) s = Some 0"
  proof (intro ballI impI)
    fix s
    assume k: "s \<in> set ?ks" and a: "s \<notin> subject ` set logs"
    show "map_of (getTotalTimeBySubject stg logs) s = Some 0
            \<and> map_of (getTotalQuestionsBySubject stg logs) s = Some 0"
      unfolding getTotalTimeBySubject_def getTotalQuestionsBySubject_def
        foldl_addTotal_other [OF a] initTotals_lookup [OF k] by simp
  qed
  from t q k1 k2 z show ?thesis by blast
qed

theorem totals_order_invariant_witness:
  "mset [example_log, maths_log, classes_log] = mset [classes_log, example_log, maths_log]
   \<and> sum_list (map (\<lambda>tlog. \<bar>duration tlog\<bar>) [example_log, maths_log, classes_log]) < 2 ^ 53
   \<and> sum_list (map (\<lambda>tlog. \<bar>questionCount tlog\<bar>) [example_log, maths_log, classes_log]) < 2 ^ 53
   \<and> getTotalTimeBySubject example_settings [example_log, maths_log, classes_log]
       = getTotalTimeBySubject example_settings [classes_log, example_log, maths_log]
   \<and> getTotalTimeBySubject example_settings [classes_log, example_log, maths_log]
       = [(classes, 5400), (physics, 3600), (chemistry, 0), (mathematics, 1800)]
   \<and> getTotalQuestionsBySubject example_settings [example_log, maths_log, classes_log]
       = getTotalQuestionsBySubject example_settings [classes_log, example_log, maths_log]
   \<and> physics \<in> set (classes # subjectKeys (examType example_settings))
   \<and> map_of (getTotalQuestionsBySubject example_settings [example_log, maths_log, classes_log]) physics
       = Some 12
   \<and> chemistry \<in> set (classes # subjectKeys (examType example_settings))
   \<and> chemistry \<notin> subject ` set [example_log, maths_log, classes_log]
   \<and> map_of (getTotalTimeBySubject example_settings [example_log, maths_log, classes_log]) chemistry
       = Some 0"
proof -
  have h: "mset [example_log, maths_log, classes_log] = mset [classes_log, example_log, maths_log]"
    by simp
  have bd: "sum_list (map (\<lambda>tlog. \<bar>duration tlog\<bar>) [example_log, maths_log, classes_log]) < 2 ^ 53"
    by (simp add: example_log_def maths_log_def classes_log_def)
  have bq: "sum_list (map (\<lambda>tlog. \<bar>questionCount tlog\<bar>) [example_log, maths_log, classes_log]) < 2 ^ 53"
    by (simp add: example_log_def maths_log_def classes_log_def)
  have p: "physics \<in> set (classes # subjectKeys (examType example_settings))"
    by (simp add: example_settings_def subjectKeys_simps)
  have m: "chemistry \<in> set (classes # subjectKeys (examType example_settings))"
    by (simp add: example_settings_def subjectKeys_simps)
  have n: "chemistry \<notin> subject ` set [example_log, maths_log, classes_log]"
    by (simp add: example_log_def maths_log_def classes_log_def)
  note w = totals_order_invariant [OF h, of example_settings]
  from w bd have c1: "getTotalTimeBySubject example_settings [example_log, maths_log, classes_log]
       = getTotalTimeBySubject example_settings [classes_log, example_log, maths_log]"
    by blast
  from w bq have c2: "getTotalQuestionsBySubject example_settings [example_log, maths_log, classes_log]
       = getTotalQuestionsBySubject example_settings [classes_log, example_log, maths_log]"
    by blast
  from w bq p have "map_of (getTotalQuestionsBySubject example_settings
       [example_log, maths_log, classes_log]) physics
     = Some (of_int (sum_list (map questionCount
         (filter (\<lambda>tlog. subject tlog = physics) [example_log, maths_log, classes_log]))))"
    by blast
  then have c5: "map_of (getTotalQuestionsBySubject example_settings
       [example_log, maths_log, classes_log]) physics = Some 12"
    by (simp add: example_log_def maths_log_def classes_log_def)
  from w m n have c3: "map_of (getTotalTimeBySubject example_settings
       [example_log, maths_log, classes_log]) chemistry = Some 0"
    by blast
  have c4: "getTotalTimeBySubject example_settings [classes_log, example_log, maths_log]
       = [(classes, 5400), (physics, 3600), (chemistry, 0), (mathematics, 1800)]"
    by code_simp
  from h bd bq c1 c2 c3 c4 c5 p m n show ?thesis by blast
qed

section \<open>Day boundary\<close>

lemma shift_div:
  fixes t q r :: int
  assumes "t = 86400000 * q + r" "0 \<le> r" "r < 86400000"
  shows "(t - 16200000) div 86400000 = (if r < 16200000 then q - 1 else q)"
proof (cases "r < 16200000")
  case True
  have e: "t - 16200000 = 86400000 * (q - 1) + (r + 70200000)"
    using assms(1) by (simp add: algebra_simps)
  have "(t - 16200000) div 86400000 = q - 1"
    using int_div_pos_eq [OF e] assms(2) True by simp
  with True show ?thesis by simp
next
  case False
  have e: "t - 16200000 = 86400000 * q + (r - 16200000)"
    using assms(1) by (simp add: algebra_simps)
  have "(t - 16200000) div 86400000 = q"
    using int_div_pos_eq [OF e] assms(3) False by simp
  with False show ?thesis by simp
qed

lemma logicalDay_shift: "spec_logicalDay t = (t - 16200000) div 86400000"
proof -
  have "(t - 16200000) div 86400000
      = (if t mod 86400000 < 16200000 then t div 86400000 - 1 else t div 86400000)"
    by (rule shift_div) simp_all
  then show ?thesis
    by (simp add: spec_logicalDay_def localDay_def msPerDay_def spec_cutover_def)
qed

lemma range_div:
  fixes y q r k :: int
  assumes "y = 86400000 * q + r" "0 \<le> r" "r < 86400000"
  shows "(q = k) = (k * 86400000 \<le> y \<and> y < (k + 1) * 86400000)"
    and "(k \<le> q) = (k * 86400000 \<le> y)"
  using assms by auto

lemma div_range: "((y::int) div 86400000 = k) = (k * 86400000 \<le> y \<and> y < (k + 1) * 86400000)"
  by (rule range_div(1) [where r = "y mod 86400000"]) simp_all


lemma logicalDay_window:
  "(spec_logicalDay t = k) = (k * msPerDay + spec_cutover \<le> t \<and> t < (k + 1) * msPerDay + spec_cutover)"
  unfolding logicalDay_shift div_range msPerDay_def spec_cutover_def by linarith





lemma localDay_addDays: "localDay (addDays d n) = localDay d + n"
  by (simp add: localDay_def addDays_def msPerDay_def)

lemma in_day_window:
  "(setHours d 4 30 0 0 \<le> x \<and> x \<le> setHours (addDays d 1) 4 29 59 999)
     = (spec_logicalDay x = localDay d)"
  unfolding logicalDay_window setHours_def localDay_addDays
  by (auto simp: msPerDay_def spec_cutover_def)

lemma dayLogs_logicalDay:
  "dayLogs logs d = filter (\<lambda>tlog. spec_logicalDay (startTime tlog) = localDay d) logs"
  unfolding dayLogs_def Let_def in_day_window ..






section \<open>Week-over-week change\<close>

lemma calculateChange_zero_previous: "calculateChange current 0 = (if 0 < current then 100 else 0)"
  by (simp add: calculateChange_def)

lemma calculateChange_examples:
  "calculateChange 0 0 = 0" "calculateChange 50 0 = 100" "calculateChange 80 100 = - 20"
  by code_simp+

text \<open>
  C5. With \<open>previous = 0\<close> the function returns 100 for a positive \<open>current\<close> and 0
  otherwise, and the three examples of the claim evaluate as stated (the two lemmas
  above). For \<open>previous \<noteq> 0\<close> the code divides first and multiplies by 100 afterwards,
  each in double precision: at \<open>current = 63\<close>, \<open>previous = 40\<close> the quotient 0.575 is
  not a double, the product is the double just below 57.5, and the function returns 57,
  where \<open>100 \<times> (63 - 40) / 40\<close> is 57.5 and rounds to 58.
\<close>

theorem calculateChange_tie_below:
  "calculateChange 63 40 = 57
   \<and> fl (fl (fl (63 - 40) / 40) * 100) = 8092405580431359 / 140737488355328
   \<and> (100 * (63 - 40) / 40 :: rat) = 115 / 2
   \<and> Math_round (100 * (63 - 40) / 40) = 58"
  by code_simp

section \<open>Streak engine: five days\<close>

text \<open>
  C1, as stated, fails on the code. The scenario: a ten-hour session with sixty questions
  on the logical days 11, 12, 14 and 15, none on day 13, one evaluation at 22:00 of each
  day, from a state with streak 0 whose last streak date is 22:00 of day 10. The
  qualification sequence is \<open>[true, true, false, true, true]\<close>; after the evaluation
  of day 13 the streak is still 2, not 0.
\<close>

theorem streak_not_zeroed_on_failed_day_counterexample:
  "map (\<lambda>(t, l). checkStreakRequirements (scenario_state\<lparr>timeLogs := l\<rparr>) t) scenario_evals
       = [True, True, False, True, True]
   \<and> currentStreak (streakData (runStreak scenario_evals scenario_state ! 2)) = 2
   \<and> map (\<lambda>s. currentStreak (streakData s)) (runStreak scenario_evals scenario_state)
       \<noteq> [1, 2, 0, 1, 2]"
  by code_simp

lemma updateStreak_frame:
  "settings (updateStreak now st) = settings st"
  "timeLogs (updateStreak now st) = timeLogs st"
  "lastStreakDate (streakData (updateStreak now st)) = now"
  by (simp_all add: updateStreak_def Let_def)

lemma checkStreakRequirements_settings:
  "settings s = settings s' \<Longrightarrow>
   checkStreakRequirements (s\<lparr>timeLogs := l\<rparr>) t = checkStreakRequirements (s'\<lparr>timeLogs := l\<rparr>) t"
  by (simp add: checkStreakRequirements_def)

lemma updateStreak_current:
  "currentStreak (streakData (updateStreak now st)) =
     (let tm = checkStreakRequirements st now;
          ym = checkStreakRequirements st (addDays now (- 1));
          ld = localDay (lastStreakDate (streakData st));
          s0 = (if \<not> ym \<and> ld = localDay now - 1 then 0 else currentStreak (streakData st))
      in if tm then (if ld = localDay now - 1 \<and> ym then s0 + 1
                     else if ld \<noteq> localDay now then 1 else s0)
         else s0)"
  by (simp add: updateStreak_def Let_def toDateString_def localDay_addDays)

lemma updateStreak_longest:
  "longestStreak (streakData (updateStreak now st))
     = max (currentStreak (streakData (updateStreak now st))) (longestStreak (streakData st))"
  by (simp add: updateStreak_def Let_def)

text \<open>
  An evaluation at or after 04:30 takes the current logical day as today: the windows it
  checks are those of the logical day of the instant and of the logical day before.
\<close>

lemma logicalDay_local: "spec_cutover \<le> t mod msPerDay \<Longrightarrow> spec_logicalDay t = localDay t"
  by (simp add: spec_logicalDay_def)

lemma dayLogs_today:
  "spec_cutover \<le> now mod msPerDay \<Longrightarrow>
   dayLogs logs now = filter (\<lambda>tlog. spec_logicalDay (startTime tlog) = spec_logicalDay now) logs"
  by (simp add: dayLogs_logicalDay logicalDay_local)

lemma dayLogs_yesterday:
  "spec_cutover \<le> now mod msPerDay \<Longrightarrow>
   dayLogs logs (addDays now (- 1))
     = filter (\<lambda>tlog. spec_logicalDay (startTime tlog) = spec_logicalDay now - 1) logs"
  by (simp add: dayLogs_logicalDay logicalDay_local localDay_addDays)

text \<open>
  C1, amended. The engine is evaluated once per logical day, at an instant at or after
  04:30 local time, over five consecutive logical days D1..D5 whose qualification sequence
  is \<open>[true, true, false, true, true]\<close>, each evaluation finding the previous day
  qualified as that day's own evaluation did, from a state whose last streak date, itself
  at or after 04:30, lies in a logical day before D1, whose current streak is 0 and whose
  longest streak is at most 2. Then the current streak after the five evaluations is
  \<open>[1, 2, 2, 1, 2]\<close> and the longest streak ends at 2. A day that does not qualify
  leaves the streak as it is, and the next day's evaluation zeroes it before it counts that
  day: had D4 not qualified either, the streak after its evaluation would be 0, the
  sequence \<open>[1, 2, 2, 0]\<close>. Evaluations before 04:30 are left out.
\<close>

theorem streak_five_days:
  assumes a1: "spec_cutover \<le> t1 mod msPerDay" and a2: "spec_cutover \<le> t2 mod msPerDay"
    and a3: "spec_cutover \<le> t3 mod msPerDay" and a4: "spec_cutover \<le> t4 mod msPerDay"
    and a5: "spec_cutover \<le> t5 mod msPerDay" and a4': "spec_cutover \<le> t4' mod msPerDay"
    and a0: "spec_cutover \<le> lastStreakDate (streakData st) mod msPerDay"
    and e1: "spec_logicalDay t1 = d + 1" and e2: "spec_logicalDay t2 = d + 2"
    and e3: "spec_logicalDay t3 = d + 3" and e4: "spec_logicalDay t4 = d + 4"
    and e5: "spec_logicalDay t5 = d + 5" and e4': "spec_logicalDay t4' = d + 4"
    and e0: "spec_logicalDay (lastStreakDate (streakData st)) \<le> d"
    and cur0: "currentStreak (streakData st) = 0"
    and long0: "longestStreak (streakData st) \<le> 2"
    and q1: "checkStreakRequirements (st\<lparr>timeLogs := l1\<rparr>) t1"
    and q2: "checkStreakRequirements (st\<lparr>timeLogs := l2\<rparr>) t2"
    and q3: "\<not> checkStreakRequirements (st\<lparr>timeLogs := l3\<rparr>) t3"
    and q4: "checkStreakRequirements (st\<lparr>timeLogs := l4\<rparr>) t4"
    and q5: "checkStreakRequirements (st\<lparr>timeLogs := l5\<rparr>) t5"
    and y2: "checkStreakRequirements (st\<lparr>timeLogs := l2\<rparr>) (addDays t2 (- 1))"
    and y3: "checkStreakRequirements (st\<lparr>timeLogs := l3\<rparr>) (addDays t3 (- 1))"
    and y4: "\<not> checkStreakRequirements (st\<lparr>timeLogs := l4\<rparr>) (addDays t4 (- 1))"
    and y5: "checkStreakRequirements (st\<lparr>timeLogs := l5\<rparr>) (addDays t5 (- 1))"
    and q4': "\<not> checkStreakRequirements (st\<lparr>timeLogs := l4'\<rparr>) t4'"
    and y4': "\<not> checkStreakRequirements (st\<lparr>timeLogs := l4'\<rparr>) (addDays t4' (- 1))"
  shows "map (\<lambda>s. currentStreak (streakData s))
           (runStreak [(t1, l1), (t2, l2), (t3, l3), (t4, l4), (t5, l5)] st) = [1, 2, 2, 1, 2]
       \<and> longestStreak (streakData
           (last (runStreak [(t1, l1), (t2, l2), (t3, l3), (t4, l4), (t5, l5)] st))) = 2
       \<and> map (\<lambda>s. currentStreak (streakData s))
           (runStreak [(t1, l1), (t2, l2), (t3, l3), (t4', l4')] st) = [1, 2, 2, 0]"
proof -
  have d1: "localDay t1 = d + 1" using e1 logicalDay_local [OF a1] by simp
  have d2: "localDay t2 = d + 2" using e2 logicalDay_local [OF a2] by simp
  have d3: "localDay t3 = d + 3" using e3 logicalDay_local [OF a3] by simp
  have d4: "localDay t4 = d + 4" using e4 logicalDay_local [OF a4] by simp
  have d5: "localDay t5 = d + 5" using e5 logicalDay_local [OF a5] by simp
  have d4': "localDay t4' = d + 4" using e4' logicalDay_local [OF a4'] by simp
  have last0: "localDay (lastStreakDate (streakData st)) \<le> d"
    using e0 logicalDay_local [OF a0] by simp
  define s1 where "s1 = updateStreak t1 (st\<lparr>timeLogs := l1\<rparr>)"
  define s2 where "s2 = updateStreak t2 (s1\<lparr>timeLogs := l2\<rparr>)"
  define s3 where "s3 = updateStreak t3 (s2\<lparr>timeLogs := l3\<rparr>)"
  define s4 where "s4 = updateStreak t4 (s3\<lparr>timeLogs := l4\<rparr>)"
  define s5 where "s5 = updateStreak t5 (s4\<lparr>timeLogs := l5\<rparr>)"
  define s4' where "s4' = updateStreak t4' (s3\<lparr>timeLogs := l4'\<rparr>)"
  have run: "runStreak [(t1, l1), (t2, l2), (t3, l3), (t4, l4), (t5, l5)] st = [s1, s2, s3, s4, s5]"
    by (simp add: Let_def s1_def s2_def s3_def s4_def s5_def)
  have run': "runStreak [(t1, l1), (t2, l2), (t3, l3), (t4', l4')] st = [s1, s2, s3, s4']"
    by (simp add: Let_def s1_def s2_def s3_def s4'_def)
  have st1: "settings s1 = settings st" by (simp add: s1_def updateStreak_frame)
  have st2: "settings s2 = settings st" by (simp add: s2_def updateStreak_frame st1)
  have st3: "settings s3 = settings st" by (simp add: s3_def updateStreak_frame st2)
  have st4: "settings s4 = settings st" by (simp add: s4_def updateStreak_frame st3)
  have l1: "lastStreakDate (streakData s1) = t1" by (simp add: s1_def updateStreak_frame)
  have l2: "lastStreakDate (streakData s2) = t2" by (simp add: s2_def updateStreak_frame)
  have l3: "lastStreakDate (streakData s3) = t3" by (simp add: s3_def updateStreak_frame)
  have l4: "lastStreakDate (streakData s4) = t4" by (simp add: s4_def updateStreak_frame)
  have c1: "currentStreak (streakData s1) = 1"
    unfolding s1_def updateStreak_current using q1 d1 last0 cur0 by (simp add: Let_def)
  have c2: "currentStreak (streakData s2) = 2"
    unfolding s2_def updateStreak_current
    using q2 y2 d1 d2 l1 c1 by (simp add: Let_def checkStreakRequirements_settings [OF st1])
  have c3: "currentStreak (streakData s3) = 2"
    unfolding s3_def updateStreak_current
    using q3 y3 d2 d3 l2 c2 by (simp add: Let_def checkStreakRequirements_settings [OF st2])
  have c4: "currentStreak (streakData s4) = 1"
    unfolding s4_def updateStreak_current
    using q4 y4 d3 d4 l3 c3 by (simp add: Let_def checkStreakRequirements_settings [OF st3])
  have c5: "currentStreak (streakData s5) = 2"
    unfolding s5_def updateStreak_current
    using q5 y5 d4 d5 l4 c4 by (simp add: Let_def checkStreakRequirements_settings [OF st4])
  have c4': "currentStreak (streakData s4') = 0"
    unfolding s4'_def updateStreak_current
    using q4' y4' d3 d4' l3 c3 by (simp add: Let_def checkStreakRequirements_settings [OF st3])
  have g1: "longestStreak (streakData s1) = max 1 (longestStreak (streakData st))"
    using c1 by (simp add: s1_def updateStreak_longest)
  have g2: "longestStreak (streakData s2) = max 2 (longestStreak (streakData s1))"
    using c2 by (simp add: s2_def updateStreak_longest)
  have g3: "longestStreak (streakData s3) = max 2 (longestStreak (streakData s2))"
    using c3 by (simp add: s3_def updateStreak_longest)
  have g4: "longestStreak (streakData s4) = max 1 (longestStreak (streakData s3))"
    using c4 by (simp add: s4_def updateStreak_longest)
  have g5: "longestStreak (streakData s5) = max 2 (longestStreak (streakData s4))"
    using c5 by (simp add: s5_def updateStreak_longest)
  from g1 g2 g3 g4 g5 long0 have g: "longestStreak (streakData s5) = 2" by simp
  from run run' c1 c2 c3 c4 c5 c4' g show ?thesis by simp
qed

theorem streak_five_days_witness:
  "list_all (\<lambda>(t, l). spec_cutover \<le> t mod msPerDay) scenario_evals
   \<and> spec_cutover \<le> lastStreakDate (streakData scenario_state) mod msPerDay
   \<and> map (\<lambda>(t, l). spec_logicalDay t) scenario_evals = [10 + 1, 10 + 2, 10 + 3, 10 + 4, 10 + 5]
   \<and> spec_logicalDay (lastStreakDate (streakData scenario_state)) \<le> 10
   \<and> currentStreak (streakData scenario_state) = 0
   \<and> longestStreak (streakData scenario_state) \<le> 2
   \<and> map (\<lambda>(t, l). checkStreakRequirements (scenario_state\<lparr>timeLogs := l\<rparr>) t) scenario_evals
       = [True, True, False, True, True]
   \<and> map (\<lambda>(t, l). checkStreakRequirements (scenario_state\<lparr>timeLogs := l\<rparr>) (addDays t (- 1)))
         (tl scenario_evals)
       = [True, True, False, True]
   \<and> map (\<lambda>(t, l). checkStreakRequirements (scenario_state\<lparr>timeLogs := l\<rparr>) t)
         scenario_failed_day4
       = [True, True, False, False]
   \<and> \<not> checkStreakRequirements
         (scenario_state\<lparr>timeLogs := [day_session 11, day_session 12]\<rparr>) (addDays (atTime 14 22 0) (- 1))
   \<and> map (\<lambda>s. currentStreak (streakData s)) (runStreak scenario_evals scenario_state)
       = [1, 2, 2, 1, 2]
   \<and> longestStreak (streakData (last (runStreak scenario_evals scenario_state))) = 2
   \<and> map (\<lambda>s. currentStreak (streakData s)) (runStreak scenario_failed_day4 scenario_state)
       = [1, 2, 2, 0]"
proof -
  have after: "list_all (\<lambda>(t, l). spec_cutover \<le> t mod msPerDay) scenario_evals
      \<and> spec_cutover \<le> lastStreakDate (streakData scenario_state) mod msPerDay"
    by code_simp
  have days: "map (\<lambda>(t, l). spec_logicalDay t) scenario_evals
      = [10 + 1, 10 + 2, 10 + 3, 10 + 4, 10 + 5]"
    by code_simp
  have init: "spec_logicalDay (lastStreakDate (streakData scenario_state)) \<le> 10
      \<and> currentStreak (streakData scenario_state) = 0
      \<and> longestStreak (streakData scenario_state) \<le> 2"
    by code_simp
  have today: "map (\<lambda>(t, l). checkStreakRequirements (scenario_state\<lparr>timeLogs := l\<rparr>) t)
      scenario_evals = [True, True, False, True, True]"
    by code_simp
  have yesterday: "map (\<lambda>(t, l). checkStreakRequirements (scenario_state\<lparr>timeLogs := l\<rparr>)
      (addDays t (- 1))) (tl scenario_evals) = [True, True, False, True]"
    by code_simp
  have failed: "map (\<lambda>(t, l). checkStreakRequirements (scenario_state\<lparr>timeLogs := l\<rparr>) t)
      scenario_failed_day4 = [True, True, False, False]"
    by code_simp
  have failed_y: "\<not> checkStreakRequirements
      (scenario_state\<lparr>timeLogs := [day_session 11, day_session 12]\<rparr>) (addDays (atTime 14 22 0) (- 1))"
    by code_simp
  have "map (\<lambda>s. currentStreak (streakData s))
           (runStreak [(atTime 11 22 0, [day_session 11]),
              (atTime 12 22 0, [day_session 11, day_session 12]),
              (atTime 13 22 0, [day_session 11, day_session 12]),
              (atTime 14 22 0, [day_session 11, day_session 12, day_session 14]),
              (atTime 15 22 0, [day_session 11, day_session 12, day_session 14, day_session 15])]
              scenario_state) = [1, 2, 2, 1, 2]
       \<and> longestStreak (streakData
           (last (runStreak [(atTime 11 22 0, [day_session 11]),
              (atTime 12 22 0, [day_session 11, day_session 12]),
              (atTime 13 22 0, [day_session 11, day_session 12]),
              (atTime 14 22 0, [day_session 11, day_session 12, day_session 14]),
              (atTime 15 22 0, [day_session 11, day_session 12, day_session 14, day_session 15])]
              scenario_state))) = 2
       \<and> map (\<lambda>s. currentStreak (streakData s))
           (runStreak [(atTime 11 22 0, [day_session 11]),
              (atTime 12 22 0, [day_session 11, day_session 12]),
              (atTime 13 22 0, [day_session 11, day_session 12]),
              (atTime 14 22 0, [day_session 11, day_session 12])]
              scenario_state) = [1, 2, 2, 0]"
    using after days init today yesterday failed failed_y
    by (intro streak_five_days [where d = 10])
      (simp_all add: scenario_evals_def scenario_failed_day4_def)
  then have run: "map (\<lambda>s. currentStreak (streakData s)) (runStreak scenario_evals scenario_state)
       = [1, 2, 2, 1, 2]
     \<and> longestStreak (streakData (last (runStreak scenario_evals scenario_state))) = 2
     \<and> map (\<lambda>s. currentStreak (streakData s)) (runStreak scenario_failed_day4 scenario_state)
       = [1, 2, 2, 0]"
    by (simp only: scenario_evals_def scenario_failed_day4_def)
  from after days init today yesterday failed failed_y run show ?thesis by blast
qed

section \<open>Streak history\<close>

text \<open>
  What the engine keeps: the history entry of an evaluation is found by the local calendar
  date of the instant (\<open>toDateString\<close>), so the calendar dates of the history stay
  distinct, and an evaluation on a calendar date that has an entry keeps the length of the
  history.
\<close>

lemma findIndexFrom_none:
  "0 \<le> i \<Longrightarrow> (findIndexFrom P xs i < 0) = (\<forall>x\<in>set xs. \<not> P x)"
  by (induction xs arbitrary: i) auto

lemma findIndexFrom_some:
  "0 \<le> i \<Longrightarrow> 0 \<le> findIndexFrom P xs i \<Longrightarrow>
   i \<le> findIndexFrom P xs i \<and> nat (findIndexFrom P xs i - i) < length xs
   \<and> P (xs ! nat (findIndexFrom P xs i - i))"
proof (induction xs arbitrary: i)
  case Nil
  then show ?case by simp
next
  case (Cons x xs)
  show ?case
  proof (cases "P x")
    case True
    then show ?thesis by simp
  next
    case False
    with Cons.prems have p: "0 \<le> findIndexFrom P xs (i + 1)" by simp
    from Cons.prems have "0 \<le> i + 1" by simp
    from Cons.IH [OF this p]
    have a: "i + 1 \<le> findIndexFrom P xs (i + 1)"
      and b: "nat (findIndexFrom P xs (i + 1) - (i + 1)) < length xs"
      and c: "P (xs ! nat (findIndexFrom P xs (i + 1) - (i + 1)))"
      by simp_all
    from a have n: "nat (findIndexFrom P xs (i + 1) - i) = Suc (nat (findIndexFrom P xs (i + 1) - (i + 1)))"
      by simp
    from False a b c show ?thesis by (simp add: n)
  qed
qed

lemma findIndex_some:
  "0 \<le> findIndex P xs \<Longrightarrow> nat (findIndex P xs) < length xs \<and> P (xs ! nat (findIndex P xs))"
  using findIndexFrom_some [of 0 P xs] by (simp add: findIndex_def)

lemma findIndex_none: "\<not> 0 \<le> findIndex P xs \<Longrightarrow> \<forall>x\<in>set xs. \<not> P x"
  using findIndexFrom_none [of 0 P xs] by (simp add: findIndex_def)

lemma updateStreak_history:
  "streakHistory (streakData (updateStreak now st)) =
     (let history = streakHistory (streakData st);
          i = findIndex (\<lambda>h. localDay (date h) = localDay now) history
      in if 0 \<le> i
         then history[nat i := (history ! nat i)\<lparr>maintained := checkStreakRequirements st now\<rparr>]
         else history @ [\<lparr>date = now, maintained = checkStreakRequirements st now\<rparr>])"
  by (simp add: updateStreak_def Let_def toDateString_def)

lemma map_update_same:
  "i < length xs \<Longrightarrow> f y = f (xs ! i) \<Longrightarrow> map f (xs[i := y]) = map f xs"
  by (simp add: map_update list_update_same_conv)

lemma history_calendar_days_distinct:
  assumes "distinct (map (\<lambda>h. localDay (date h)) (streakHistory (streakData st)))"
  shows "distinct (map (\<lambda>h. localDay (date h)) (streakHistory (streakData (updateStreak now st))))"
proof (cases "0 \<le> findIndex (\<lambda>h. localDay (date h) = localDay now) (streakHistory (streakData st))")
  case True
  let ?h = "streakHistory (streakData st)"
  let ?i = "nat (findIndex (\<lambda>h. localDay (date h) = localDay now) ?h)"
  from findIndex_some [OF True] have i: "?i < length ?h" by simp
  have "map (\<lambda>h. localDay (date h))
          (?h[?i := (?h ! ?i)\<lparr>maintained := checkStreakRequirements st now\<rparr>])
        = map (\<lambda>h. localDay (date h)) ?h"
    by (rule map_update_same [OF i]) simp
  with assms True show ?thesis by (simp add: updateStreak_history Let_def)
next
  case False
  from findIndex_none [OF False]
  have "localDay now \<notin> (\<lambda>h. localDay (date h)) ` set (streakHistory (streakData st))"
    by auto
  with assms False show ?thesis by (simp add: updateStreak_history Let_def)
qed

lemma history_upsert_same_day:
  assumes "e \<in> set (streakHistory (streakData st))" "localDay (date e) = localDay now"
  shows "length (streakHistory (streakData (updateStreak now st)))
           = length (streakHistory (streakData st))"
proof -
  from assms have "\<not> (\<forall>x\<in>set (streakHistory (streakData st)). \<not> localDay (date x) = localDay now)"
    by blast
  with findIndex_none have "0 \<le> findIndex (\<lambda>h. localDay (date h) = localDay now)
      (streakHistory (streakData st))"
    by blast
  then show ?thesis by (simp add: updateStreak_history Let_def)
qed

text \<open>
  C7. The claim is about logical days, and the engine takes the calendar date of the
  instant as ``today'' without the 04:30 adjustment that the other ``today'' computations
  of the Dashboard make. Evaluations at 23:00 of day 11 and at 01:00 of day 12 fall in the
  same logical day 11, and leave two history entries for it.
\<close>

theorem history_splits_logical_day:
  "map (\<lambda>h. (spec_logicalDay (date h), localDay (date h), maintained h))
     (streakHistory (streakData (last (runStreak
        [(atTime 11 23 0, [day_session 11]), (atTime 12 1 0, [day_session 11])] scenario_state))))
   = [(11, 11, True), (11, 12, False)]"
  by code_simp


end
